theory Spec2Isabelle
  imports Main "HOL-Library.AList" "HOL-Library.Char_ord" "HOL-Library.List_Lexorder"
begin

section \<open>Strings and slash-separated paths\<close>

text \<open>
  The Go standard library functions the sources call (\<^verbatim>\<open>strings.HasPrefix\<close>,
  \<^verbatim>\<open>strings.HasSuffix\<close>, \<^verbatim>\<open>path.Clean\<close>, \<^verbatim>\<open>path.Join\<close>, \<^verbatim>\<open>path.Base\<close>,
  \<^verbatim>\<open>path.Ext\<close>, \<^verbatim>\<open>build.IsLocalImport\<close>). Strings are byte lists. The
  \<^verbatim>\<open>filepath\<close> variants are the Unix ones, which agree with \<^verbatim>\<open>path\<close>.
\<close>

definition HasPrefix :: "string \<Rightarrow> string \<Rightarrow> bool" where
  "HasPrefix s p = (take (length p) s = p)"

definition HasSuffix :: "string \<Rightarrow> string \<Rightarrow> bool" where
  "HasSuffix s suf = (length suf \<le> length s \<and> drop (length s - length suf) s = suf)"

text \<open>\<^verbatim>\<open>strings.Split(s, "/")\<close>: the pieces between the slashes, empty ones included.\<close>

fun splitSlash :: "string \<Rightarrow> string list" where
  "splitSlash [] = [[]]"
| "splitSlash (ch # s) =
     (if ch = CHR ''/'' then [] # splitSlash s
      else (case splitSlash s of
              [] \<Rightarrow> [[ch]]
            | w # ws \<Rightarrow> (ch # w) # ws))"

fun joinSlash :: "string list \<Rightarrow> string" where
  "joinSlash [] = []"
| "joinSlash [w] = w"
| "joinSlash (w # ws) = w @ ''/'' @ joinSlash ws"

text \<open>
  \<^verbatim>\<open>path.Clean\<close>, on the path's elements: empty elements and \<^verbatim>\<open>.\<close> are
  dropped; \<^verbatim>\<open>..\<close> removes the element before it when there is one that is not itself
  \<^verbatim>\<open>..\<close>, is kept in front of a path that is not rooted, and is dropped at the
  beginning of a rooted path. The stack holds the elements kept so far, last one first.
\<close>

fun cleanElems :: "bool \<Rightarrow> string list \<Rightarrow> string list \<Rightarrow> string list" where
  "cleanElems rooted stack [] = rev stack"
| "cleanElems rooted stack (e # es) =
     (if e = [] \<or> e = ''.'' then cleanElems rooted stack es
      else if e = ''..'' then
        (case stack of
           [] \<Rightarrow> if rooted then cleanElems rooted [] es else cleanElems rooted [''..''] es
         | t # ts \<Rightarrow>
             if t = ''..'' then cleanElems rooted (''..'' # stack) es
             else cleanElems rooted ts es)
      else cleanElems rooted (e # stack) es)"

definition Clean :: "string \<Rightarrow> string" where
  "Clean p =
     (if p = [] then ''.''
      else
        (let rooted = (hd p = CHR ''/'');
             out = (if rooted then ''/'' else []) @ joinSlash (cleanElems rooted [] (splitSlash p))
         in if out = [] then ''.'' else out))"

definition Join :: "string list \<Rightarrow> string" where
  "Join elem =
     (case dropWhile (\<lambda>e. e = []) elem of
        [] \<Rightarrow> []
      | es \<Rightarrow> Clean (joinSlash es))"

text \<open>\<^verbatim>\<open>path.Base\<close>: the last element, after trailing slashes are stripped.\<close>

definition Base :: "string \<Rightarrow> string" where
  "Base p =
     (if p = [] then ''.''
      else
        (let stripped = rev (dropWhile (\<lambda>ch. ch = CHR ''/'') (rev p));
             lastElem = last (splitSlash stripped)
         in if lastElem = [] then ''/'' else lastElem))"

text \<open>\<^verbatim>\<open>path.Ext\<close>: from the last dot of the last element; the scan runs from the end.\<close>

fun extScan :: "string \<Rightarrow> string \<Rightarrow> string" where
  "extScan [] acc = []"
| "extScan (ch # r) acc =
     (if ch = CHR ''/'' then []
      else if ch = CHR ''.'' then ch # acc
      else extScan r (ch # acc))"

definition Ext :: "string \<Rightarrow> string" where
  "Ext p = extScan (rev p) []"

definition IsLocalImport :: "string \<Rightarrow> bool" where
  "IsLocalImport p = (p = ''.'' \<or> p = ''..'' \<or> HasPrefix p ''./'' \<or> HasPrefix p ''../'')"


section \<open>Configuration (config/config.go)\<close>

datatype DependencyMode = ExternalMode | VendorMode

datatype StructureMode = HierarchicalMode | FlatMode

datatype ProtoMode = DefaultProtoMode | DisableProtoMode | LegacyProtoMode

record Config =
  Dirs :: "string list"
  RepoRoot :: string
  ValidBuildFileNames :: "string list"
  GenericTags :: "(string \<times> bool) list"
  ExperimentalPlatforms :: bool
  GoPrefix :: string
  ShouldFix :: bool
  DepMode :: DependencyMode
  KnownImports :: "string list"
  StructureMode :: StructureMode
  ProtoMode :: ProtoMode

definition ProtoModeFromString :: "string \<Rightarrow> string + ProtoMode" where
  "ProtoModeFromString s =
     (if s = ''default'' then Inr DefaultProtoMode
      else if s = ''disable'' then Inr DisableProtoMode
      else if s = ''legacy'' then Inr LegacyProtoMode
      else Inl (''unrecognized proto mode: '' @ s))"

record Directive =
  Key :: string
  Value :: string


section \<open>Build file expressions\<close>

text \<open>
  The syntax tree of the build file library (\<^verbatim>\<open>bf.Expr\<close>), with the node kinds the
  sources inspect, and the accessors \<^verbatim>\<open>File.Rules\<close>, \<^verbatim>\<open>Rule.Kind\<close>,
  \<^verbatim>\<open>Rule.AttrDefn\<close> and \<^verbatim>\<open>Rule.Attr\<close> of that library.
\<close>

datatype Expr =
    StringExpr string
  | LiteralExpr string
  | ListExpr "Expr list"
  | DictExpr "Expr list"
  | KeyValueExpr Expr Expr
  | CallExpr Expr "Expr list"
  | BinaryExpr Expr string Expr
  | DotExpr Expr string
  | CommentBlock "string list"

record bfFile =
  Path :: string
  Stmt :: "Expr list"

fun isCallExpr :: "Expr \<Rightarrow> bool" where
  "isCallExpr (CallExpr x args) = True"
| "isCallExpr e = False"

definition Rules :: "bfFile \<Rightarrow> Expr list" where
  "Rules f = filter isCallExpr (Stmt f)"

fun kindNames :: "Expr \<Rightarrow> string list option" where
  "kindNames (DotExpr x name) = map_option (\<lambda>ns. ns @ [name]) (kindNames x)"
| "kindNames (LiteralExpr tok) = Some [tok]"
| "kindNames e = None"

fun joinDot :: "string list \<Rightarrow> string" where
  "joinDot [] = []"
| "joinDot [w] = w"
| "joinDot (w # ws) = w @ ''.'' @ joinDot ws"

fun Kind :: "Expr \<Rightarrow> string" where
  "Kind (CallExpr x args) = (case kindNames x of None \<Rightarrow> [] | Some ns \<Rightarrow> joinDot ns)"
| "Kind e = []"

fun AttrDefn :: "Expr list \<Rightarrow> string \<Rightarrow> Expr option" where
  "AttrDefn [] key = None"
| "AttrDefn (BinaryExpr (LiteralExpr k) op y # kvs) key =
     (if op = ''='' \<and> k = key then Some (BinaryExpr (LiteralExpr k) op y) else AttrDefn kvs key)"
| "AttrDefn (kv # kvs) key = AttrDefn kvs key"

fun Attr :: "Expr \<Rightarrow> string \<Rightarrow> Expr option" where
  "Attr (CallExpr x args) key =
     (case AttrDefn args key of Some (BinaryExpr lhs op y) \<Rightarrow> Some y | _ \<Rightarrow> None)"
| "Attr e key = None"


section \<open>The directory tree\<close>

text \<open>
  What \<^verbatim>\<open>os.Stat\<close>, \<^verbatim>\<open>ioutil.ReadFile\<close> and \<^verbatim>\<open>ioutil.ReadDir\<close> see. A regular
  file holds its bytes, or \<open>None\<close> when reading it fails. A directory holds its entries in
  the order \<^verbatim>\<open>ReadDir\<close> lists them and a flag that says whether listing it succeeds; an
  entry of a directory that cannot be listed can still be reached by its name.
\<close>

datatype FsNode =
    RegFile "string option"
  | Directory bool "(string \<times> FsNode) list"

fun IsDir :: "FsNode \<Rightarrow> bool" where
  "IsDir (Directory readable es) = True"
| "IsDir (RegFile d) = False"

type_synonym FileInfo = "string \<times> bool"

definition ReadDir :: "(string \<times> FsNode) list \<Rightarrow> FileInfo list" where
  "ReadDir es = map (\<lambda>(name, node). (name, IsDir node)) es"


section \<open>Classification of directory entries (packages/walk.go)\<close>

text \<open>The \<^verbatim>\<open>excluded\<close> table of one visit: the values of its exclude directives.\<close>

definition excludedOf :: "Directive list \<Rightarrow> string list" where
  "excludedOf directives = map Value (filter (\<lambda>d. Key d = ''exclude'') directives)"

text \<open>\<^verbatim>\<open>excludePbGoFiles\<close>: the table grows while the entries are scanned.\<close>

fun excludePbGoFiles :: "FileInfo list \<Rightarrow> string list \<Rightarrow> string list" where
  "excludePbGoFiles [] excluded = excluded"
| "excludePbGoFiles (f # files) excluded =
     (let name = fst f in
      if name \<in> set excluded then excludePbGoFiles files excluded
      else if HasSuffix name ''.proto''
        then excludePbGoFiles files
               (excluded @ [take (length name - length ''.proto'') name @ ''.pb.go''])
      else excludePbGoFiles files excluded)"

datatype EntryClass = Skipped | Subdir | PkgFile | OtherFile

text \<open>The \<^verbatim>\<open>switch\<close> in the loop over the entries, case by case.\<close>

definition classifyEntry :: "Config \<Rightarrow> string list \<Rightarrow> FileInfo \<Rightarrow> EntryClass" where
  "classifyEntry c excluded f =
     (let base = fst f; isDir = snd f in
      if (case base of [] \<Rightarrow> True | ch # rest \<Rightarrow> ch = CHR ''.'' \<or> ch = CHR ''_'')
         \<or> base \<in> set excluded
         \<or> (base = ''vendor'' \<and> isDir \<and> DepMode c = ExternalMode)
        then Skipped
      else if isDir then Subdir
      else if HasSuffix base ''.go''
              \<or> (ProtoMode c \<noteq> DisableProtoMode \<and> HasSuffix base ''.proto'')
        then PkgFile
      else OtherFile)"

definition namesOfClass :: "Config \<Rightarrow> string list \<Rightarrow> EntryClass \<Rightarrow> FileInfo list \<Rightarrow> string list" where
  "namesOfClass c excluded k files =
     map fst (filter (\<lambda>f. classifyEntry c excluded f = k) files)"

text \<open>
  The table in effect for the classification: the directives' table, extended by
  \<^verbatim>\<open>excludePbGoFiles\<close> in default proto mode.
\<close>

definition visitExcluded :: "Config \<Rightarrow> Directive list \<Rightarrow> FileInfo list \<Rightarrow> string list" where
  "visitExcluded c directives files =
     (if ProtoMode c = DefaultProtoMode then excludePbGoFiles files (excludedOf directives)
      else excludedOf directives)"


section \<open>Packages (packages/walk.go)\<close>

text \<open>
  The fields of \<^verbatim>\<open>fileInfo\<close> and \<^verbatim>\<open>Package\<close> that walk.go reads and writes. The
  per-kind targets of a package are written only by \<^verbatim>\<open>Package.addFile\<close>, which is not
  part of walk.go: they are the component \<open>targets\<close>, of a type left open.
\<close>

record fileInfo =
  fileName :: string
  packageName :: string
  isCgo :: bool

record 't Package =
  Name :: string
  Dir :: string
  Rel :: string
  HasTestdata :: bool
  targets :: 't

datatype SelectError =
    NoGoError string
  | MultiplePackageError string "string list" "string list"

datatype LogMsg =
    LogReadFile string
  | LogMultipleFiles string string string
  | LogParse string
  | LogReadDir string
  | LogAddFile string
  | LogSelect SelectError

datatype 'a Outcome = Panicked string | Done 'a

text \<open>
  The functions that walk.go calls and that live in other files of the repository
  (config/directives.go, packages/package.go, packages/fileinfo.go), in the build file
  library (\<^verbatim>\<open>bf.Parse\<close>) or in the standard library (\<^verbatim>\<open>filepath.Rel\<close>), as
  parameters of the walk. \<open>Parse\<close> and \<open>filepathRel\<close> give \<open>None\<close> for an error;
  \<open>addFile\<close> gives the error, if any, and the targets after the call.
\<close>

record 't Env =
  Parse :: "string \<Rightarrow> string \<Rightarrow> bfFile option"
  filepathRel :: "string \<Rightarrow> string \<Rightarrow> string option"
  ParseDirectives :: "bfFile \<Rightarrow> Directive list"
  ApplyDirectives :: "Config \<Rightarrow> Directive list \<Rightarrow> Config"
  InferProtoMode :: "Config \<Rightarrow> bfFile option \<Rightarrow> Directive list \<Rightarrow> Config"
  goFileInfo :: "Config \<Rightarrow> string \<Rightarrow> string \<Rightarrow> string \<Rightarrow> fileInfo"
  protoFileInfo :: "Config \<Rightarrow> string \<Rightarrow> string \<Rightarrow> string \<Rightarrow> fileInfo"
  otherFileInfo :: "string \<Rightarrow> string \<Rightarrow> string \<Rightarrow> fileInfo"
  fileNameInfo :: "string \<Rightarrow> string \<Rightarrow> string \<Rightarrow> fileInfo"
  addFile :: "Config \<Rightarrow> 't \<Rightarrow> fileInfo \<Rightarrow> bool \<Rightarrow> string option \<times> 't"
  isBuildable :: "Config \<Rightarrow> 't Package \<Rightarrow> bool"
  firstGoFile :: "'t Package \<Rightarrow> string"
  emptyTargets :: "'t"

definition defaultPackageName :: "Config \<Rightarrow> string \<Rightarrow> string" where
  "defaultPackageName c dir =
     (if dir \<noteq> RepoRoot c then Base dir
      else
        (let name = Base (GoPrefix c) in
         if name = ''.'' \<or> name = ''/'' then ''unnamed'' else name))"

text \<open>
  \<^verbatim>\<open>selectPackage\<close>. The Go map \<^verbatim>\<open>packageMap\<close> is an association list with one
  entry per name; the order of its entries stands for the order in which Go happens to
  iterate the map, which only the lists inside the error depend on.
\<close>

definition selectPackage ::
  "'t Env \<Rightarrow> Config \<Rightarrow> string \<Rightarrow> (string \<times> 't Package) list \<Rightarrow> SelectError + 't Package"
where
  "selectPackage env c dir packageMap =
     (let buildablePackages = filter (\<lambda>(name, pkg). isBuildable env c pkg) packageMap in
      if length buildablePackages = 0 then Inl (NoGoError dir)
      else if length buildablePackages = 1 then Inr (snd (hd buildablePackages))
      else
        (case map_of buildablePackages (defaultPackageName c dir) of
           Some pkg \<Rightarrow> Inr pkg
         | None \<Rightarrow>
             Inl (MultiplePackageError dir
                    (map fst buildablePackages)
                    (map (\<lambda>(name, pkg). firstGoFile env pkg) buildablePackages))))"

record 't BuildAcc =
  packageMap :: "(string \<times> 't Package) list"
  cgo :: bool
  unknownFiles :: "fileInfo list"
  buildLog :: "LogMsg list"

text \<open>\<^verbatim>\<open>pkg.addFile(c, info, cgo)\<close> on a package, with the error logged or dropped.\<close>

definition addFileTo ::
  "'t Env \<Rightarrow> Config \<Rightarrow> bool \<Rightarrow> bool \<Rightarrow> fileInfo \<Rightarrow> 't Package \<times> LogMsg list
     \<Rightarrow> 't Package \<times> LogMsg list"
where
  "addFileTo env c cgoFlag logged info acc =
     (case addFile env c (targets (fst acc)) info cgoFlag of
        (err, t) \<Rightarrow>
          ((fst acc)\<lparr>targets := t\<rparr>,
           (case err of
              Some msg \<Rightarrow> if logged then snd acc @ [LogAddFile msg] else snd acc
            | None \<Rightarrow> snd acc)))"

text \<open>The first loop of \<^verbatim>\<open>buildPackage\<close>, over the .go and .proto files.\<close>

fun groupPkgFiles ::
  "'t Env \<Rightarrow> Config \<Rightarrow> string \<Rightarrow> string \<Rightarrow> bool \<Rightarrow> string list \<Rightarrow> 't BuildAcc
     \<Rightarrow> 't BuildAcc Outcome"
where
  "groupPkgFiles env c dir rel hasTestdata [] acc = Done acc"
| "groupPkgFiles env c dir rel hasTestdata (f # fs) acc =
     (if Ext f \<noteq> ''.go'' \<and> Ext f \<noteq> ''.proto''
        then Panicked (''file cannot determine package name: '' @ f)
      else
        (let info = (if Ext f = ''.go'' then goFileInfo env c dir rel f
                     else protoFileInfo env c dir rel f) in
         if packageName info = [] then
           groupPkgFiles env c dir rel hasTestdata fs
             (acc\<lparr>unknownFiles := unknownFiles acc @ [info]\<rparr>)
         else if packageName info = ''documentation'' then
           groupPkgFiles env c dir rel hasTestdata fs acc
         else
           (let p0 = (case map_of (packageMap acc) (packageName info) of
                        Some p \<Rightarrow> p
                      | None \<Rightarrow>
                          \<lparr>Name = packageName info, Dir = dir, Rel = rel,
                           HasTestdata = hasTestdata, targets = emptyTargets env\<rparr>);
                r = addFileTo env c False True info (p0, buildLog acc)
            in groupPkgFiles env c dir rel hasTestdata fs
                 (acc\<lparr>packageMap := AList.update (packageName info) (fst r) (packageMap acc),
                      cgo := (cgo acc \<or> isCgo info),
                      buildLog := snd r\<rparr>))))"

definition buildPackage ::
  "'t Env \<Rightarrow> Config \<Rightarrow> string \<Rightarrow> string \<Rightarrow> string list \<Rightarrow> string list \<Rightarrow> string list
     \<Rightarrow> bool \<Rightarrow> ('t Package option \<times> LogMsg list) Outcome"
where
  "buildPackage env c dir rel pkgFiles otherFiles genFiles hasTestdata =
     (case groupPkgFiles env c dir rel hasTestdata pkgFiles
             \<lparr>packageMap = [], cgo = False, unknownFiles = [], buildLog = []\<rparr> of
        Panicked msg \<Rightarrow> Panicked msg
      | Done acc \<Rightarrow>
          (case selectPackage env c dir (packageMap acc) of
             Inl (NoGoError d) \<Rightarrow> Done (None, buildLog acc)
           | Inl err \<Rightarrow> Done (None, buildLog acc @ [LogSelect err])
           | Inr pkg \<Rightarrow>
               (let r1 = fold (addFileTo env c (cgo acc) False) (unknownFiles acc)
                           (pkg, buildLog acc);
                    r2 = fold (\<lambda>file. addFileTo env c (cgo acc) True
                                         (otherFileInfo env dir rel file)) otherFiles r1;
                    r3 = fold (\<lambda>f. addFileTo env c (cgo acc) True (fileNameInfo env dir rel f))
                           (filter (\<lambda>f. f \<notin> set pkgFiles \<and> f \<notin> set otherFiles) genFiles) r2
                in Done (Some (fst r3), snd r3))))"

text \<open>\<^verbatim>\<open>findGenFiles\<close>: the strings of the \<^verbatim>\<open>out\<close> and \<^verbatim>\<open>outs\<close> attributes.\<close>

fun stringValues :: "Expr list \<Rightarrow> string list" where
  "stringValues [] = []"
| "stringValues (StringExpr s # es) = s # stringValues es"
| "stringValues (e # es) = stringValues es"

fun attrStrings :: "Expr option \<Rightarrow> string list" where
  "attrStrings (Some (StringExpr s)) = [s]"
| "attrStrings (Some (ListExpr elems)) = stringValues elems"
| "attrStrings e = []"

definition findGenFiles :: "bfFile \<Rightarrow> string list \<Rightarrow> string list" where
  "findGenFiles f excluded =
     filter (\<lambda>s. s \<notin> set excluded)
       (concat (map (\<lambda>r. attrStrings (Attr r ''out'') @ attrStrings (Attr r ''outs''))
                  (Rules f)))"


section \<open>The walk (packages/walk.go)\<close>

text \<open>
  One call of the callback \<^verbatim>\<open>f\<close>, and the state that the closure \<^verbatim>\<open>visit\<close> shares
  with \<^verbatim>\<open>Walk\<close>: the variable \<^verbatim>\<open>c\<close>, which \<^verbatim>\<open>visit\<close> does not take as a parameter
  but captures and assigns to, the log, and the calls of \<^verbatim>\<open>f\<close> made so far.
\<close>

record 't WalkCall =
  callRel :: string
  callConfig :: Config
  callPkg :: "'t Package option"
  callOldFile :: "bfFile option"
  callIsUpdateDir :: bool

record 't WalkState =
  cfg :: Config
  logs :: "LogMsg list"
  calls :: "'t WalkCall list"

definition checkUpdateDir :: "string list \<Rightarrow> string \<Rightarrow> bool \<Rightarrow> bool" where
  "checkUpdateDir updateRels rel isUpdateDir =
     (isUpdateDir \<or>
      list_ex (\<lambda>updateRel. updateRel = [] \<or> rel = updateRel \<or> HasPrefix rel (updateRel @ ''/''))
        updateRels)"

text \<open>
  \<^verbatim>\<open>os.Stat\<close> followed by \<^verbatim>\<open>ioutil.ReadFile\<close> on a name inside a node. Below a
  regular file the name cannot be looked up: \<^verbatim>\<open>Stat\<close> fails with an error other than
  "does not exist" and so does the read, like for a file that cannot be read.
\<close>

fun lookupEntry :: "FsNode \<Rightarrow> string \<Rightarrow> FsNode option" where
  "lookupEntry (Directory readable es) base = map_of es base"
| "lookupEntry (RegFile d) base = Some (RegFile None)"

text \<open>The loop over \<^verbatim>\<open>c.ValidBuildFileNames\<close> that looks for an existing build file.\<close>

fun findOldFile ::
  "'t Env \<Rightarrow> FsNode \<Rightarrow> string \<Rightarrow> string list \<Rightarrow> bfFile option \<times> bool \<times> LogMsg list
     \<Rightarrow> bfFile option \<times> bool \<times> LogMsg list"
where
  "findOldFile env node dir [] acc = acc"
| "findOldFile env node dir (base # bases) (oldFile, haveError, lg) =
     (let oldPath = Join [dir, base] in
      case lookupEntry node base of
        None \<Rightarrow> findOldFile env node dir bases (oldFile, haveError, lg)
      | Some (Directory readable es) \<Rightarrow> findOldFile env node dir bases (oldFile, haveError, lg)
      | Some (RegFile None) \<Rightarrow>
          findOldFile env node dir bases (oldFile, True, lg @ [LogReadFile oldPath])
      | Some (RegFile (Some oldData)) \<Rightarrow>
          (case oldFile of
             Some old \<Rightarrow>
               findOldFile env node dir bases
                 (oldFile, True, lg @ [LogMultipleFiles dir (Base (Path old)) base])
           | None \<Rightarrow>
               (case Parse env oldPath oldData of
                  None \<Rightarrow> findOldFile env node dir bases (None, True, lg @ [LogParse oldPath])
                | Some parsed \<Rightarrow> findOldFile env node dir bases (Some parsed, haveError, lg))))"

text \<open>
  The part of \<^verbatim>\<open>visit\<close> before the directory is listed: the update check, the build
  file, its directives, and the assignments to the captured \<^verbatim>\<open>c\<close>.
\<close>

record 't VisitHead =
  headIsUpdateDir :: bool
  headOldFile :: "bfFile option"
  headHaveError :: bool
  headDirectives :: "Directive list"
  headState :: "'t WalkState"

definition visitHead ::
  "'t Env \<Rightarrow> string list \<Rightarrow> 't WalkState \<Rightarrow> FsNode \<Rightarrow> string \<Rightarrow> string \<Rightarrow> bool \<Rightarrow> 't VisitHead"
where
  "visitHead env updateRels st node dir rel isUpdateDir =
     (case findOldFile env node dir (ValidBuildFileNames (cfg st)) (None, False, []) of
        (oldFile, haveError, lg) \<Rightarrow>
          (let directives = (case oldFile of None \<Rightarrow> [] | Some old \<Rightarrow> ParseDirectives env old);
               c1 = (case oldFile of None \<Rightarrow> cfg st
                     | Some old \<Rightarrow> ApplyDirectives env (cfg st) directives);
               c2 = InferProtoMode env c1 oldFile directives
           in \<lparr>headIsUpdateDir = checkUpdateDir updateRels rel isUpdateDir,
               headOldFile = oldFile,
               headHaveError = haveError,
               headDirectives = directives,
               headState = st\<lparr>cfg := c2, logs := logs st @ lg\<rparr>\<rparr>))"

text \<open>
  The part of \<^verbatim>\<open>visit\<close> after the recursion: the callback, with or without a package.
  The \<^verbatim>\<open>c\<close> it passes on is the captured variable as the recursion left it.
\<close>

definition visitTail ::
  "'t Env \<Rightarrow> 't WalkState \<Rightarrow> string \<Rightarrow> string \<Rightarrow> bool \<Rightarrow> bfFile option \<Rightarrow> bool
     \<Rightarrow> string list \<Rightarrow> string list \<Rightarrow> string list \<Rightarrow> bool \<Rightarrow> bool
     \<Rightarrow> (bool \<times> 't WalkState) Outcome"
where
  "visitTail env st dir rel isUpdateDir oldFile haveError excluded pkgFiles otherFiles
       hasTestdata subdirHasPackage =
     (let hasPackage = (subdirHasPackage \<or> oldFile \<noteq> None) in
      if haveError \<or> \<not> isUpdateDir then
        Done (hasPackage,
              st\<lparr>calls := calls st @
                   [\<lparr>callRel = rel, callConfig = cfg st, callPkg = None,
                     callOldFile = oldFile, callIsUpdateDir = isUpdateDir\<rparr>]\<rparr>)
      else
        (let genFiles = (case oldFile of None \<Rightarrow> [] | Some old \<Rightarrow> findGenFiles old excluded) in
         case buildPackage env (cfg st) dir rel pkgFiles otherFiles genFiles hasTestdata of
           Panicked msg \<Rightarrow> Panicked msg
         | Done (pkg, lg) \<Rightarrow>
             Done (hasPackage \<or> pkg \<noteq> None,
                   st\<lparr>logs := logs st @ lg,
                      calls := calls st @
                        [\<lparr>callRel = rel, callConfig = cfg st, callPkg = pkg,
                          callOldFile = oldFile, callIsUpdateDir = isUpdateDir\<rparr>]\<rparr>)))"

text \<open>
  \<^verbatim>\<open>visit\<close>, and its loop over the subdirectories. The loop runs over the entries that
  the classification, made before the recursion with the configuration \<open>c\<close> and the table
  \<open>excluded\<close> of that moment, put among \<^verbatim>\<open>subdirs\<close>.
\<close>

fun visit ::
  "'t Env \<Rightarrow> string list \<Rightarrow> 't WalkState \<Rightarrow> FsNode \<Rightarrow> string \<Rightarrow> string \<Rightarrow> bool
     \<Rightarrow> (bool \<times> 't WalkState) Outcome"
and visitSubdirs ::
  "'t Env \<Rightarrow> string list \<Rightarrow> Config \<Rightarrow> string list \<Rightarrow> string \<Rightarrow> string \<Rightarrow> bool
     \<Rightarrow> (string \<times> FsNode) list \<Rightarrow> bool \<times> bool \<times> 't WalkState
     \<Rightarrow> (bool \<times> bool \<times> 't WalkState) Outcome"
where
  "visit env updateRels st (RegFile d) dir rel isUpdateDir =
     (let h = visitHead env updateRels st (RegFile d) dir rel isUpdateDir;
          st1 = headState h
      in Done (False, st1\<lparr>logs := logs st1 @ [LogReadDir dir]\<rparr>))"
| "visit env updateRels st (Directory readable es) dir rel isUpdateDir =
     (let h = visitHead env updateRels st (Directory readable es) dir rel isUpdateDir;
          st1 = headState h
      in if \<not> readable then Done (False, st1\<lparr>logs := logs st1 @ [LogReadDir dir]\<rparr>)
         else
           (let files = ReadDir es;
                c = cfg st1;
                excluded = visitExcluded c (headDirectives h) files;
                pkgFiles = namesOfClass c excluded PkgFile files;
                otherFiles = namesOfClass c excluded OtherFile files
            in case visitSubdirs env updateRels c excluded dir rel (headIsUpdateDir h) es
                      (False, False, st1) of
                 Panicked msg \<Rightarrow> Panicked msg
               | Done (hasTestdata, subdirHasPackage, st2) \<Rightarrow>
                   visitTail env st2 dir rel (headIsUpdateDir h) (headOldFile h)
                     (headHaveError h) excluded pkgFiles otherFiles hasTestdata
                     subdirHasPackage))"
| "visitSubdirs env updateRels c excluded dir rel isUpdateDir [] acc = Done acc"
| "visitSubdirs env updateRels c excluded dir rel isUpdateDir (e # es)
       (hasTestdata, subdirHasPackage, st) =
     (if classifyEntry c excluded (fst e, IsDir (snd e)) \<noteq> Subdir
        then visitSubdirs env updateRels c excluded dir rel isUpdateDir es
               (hasTestdata, subdirHasPackage, st)
      else
        (case visit env updateRels st (snd e) (Join [dir, fst e]) (Join [rel, fst e])
                isUpdateDir of
           Panicked msg \<Rightarrow> Panicked msg
         | Done (hasPackage, st') \<Rightarrow>
             visitSubdirs env updateRels c excluded dir rel isUpdateDir es
               (hasTestdata \<or> (fst e = ''testdata'' \<and> \<not> hasPackage),
                subdirHasPackage \<or> hasPackage, st')))"

text \<open>
  \<^verbatim>\<open>Walk\<close>: the relative paths of the directories to update, then the visit of the root.
  \<open>rootNode\<close> is what the file system holds at \<open>root\<close>. The result is the final state,
  with every call of \<^verbatim>\<open>f\<close> in order.
\<close>

fun updateRelsOf :: "'t Env \<Rightarrow> Config \<Rightarrow> string list \<Rightarrow> string list Outcome" where
  "updateRelsOf env c [] = Done []"
| "updateRelsOf env c (dir # dirs) =
     (case filepathRel env (RepoRoot c) dir of
        None \<Rightarrow> Panicked (dir @ '': not a subdirectory of repository root '' @ RepoRoot c)
      | Some rel \<Rightarrow>
          (case updateRelsOf env c dirs of
             Panicked msg \<Rightarrow> Panicked msg
           | Done rels \<Rightarrow> Done ((if rel = ''.'' \<or> rel = ''/'' then [] else rel) # rels)))"

definition Walk :: "'t Env \<Rightarrow> Config \<Rightarrow> string \<Rightarrow> FsNode \<Rightarrow> 't WalkState Outcome" where
  "Walk env c root rootNode =
     (case updateRelsOf env c (Dirs c) of
        Panicked msg \<Rightarrow> Panicked msg
      | Done updateRels \<Rightarrow>
          (case filepathRel env (RepoRoot c) root of
             None \<Rightarrow> Panicked (root @ '': not a subdirectory of repository root '' @ RepoRoot c)
           | Some r \<Rightarrow>
               (let rootRel = (if r = ''.'' \<or> r = ''/'' then [] else r) in
                case visit env updateRels \<lparr>cfg = c, logs = [], calls = []\<rparr> rootNode root rootRel
                       False of
                  Panicked msg \<Rightarrow> Panicked msg
                | Done (hasPackage, st) \<Rightarrow> Done st)))"


section \<open>The resolver (resolve/resolve.go)\<close>

record Label =
  LRepo :: string
  LPkg :: string
  LName :: string
  LRelative :: bool

datatype ResolveError =
    OutsideRepository string string
  | StandardImport string
  | ExternalError string

text \<open>
  \<^verbatim>\<open>resolveGo\<close>. The field \<^verbatim>\<open>r.external\<close> is an interface value that
  \<^verbatim>\<open>NewResolver\<close> sets in external mode only: \<open>None\<close> stands for the nil interface, and
  calling a method of it panics.
\<close>

definition callExternal ::
  "(string \<Rightarrow> ResolveError + Label) option \<Rightarrow> string \<Rightarrow> (ResolveError + Label) Outcome"
where
  "callExternal external imp =
     (case external of
        None \<Rightarrow> Panicked ''invalid memory address or nil pointer dereference''
      | Some resolve \<Rightarrow> Done (resolve imp))"

definition resolveGo ::
  "Config \<Rightarrow> (string \<Rightarrow> ResolveError + Label) option \<Rightarrow> string \<Rightarrow> string
     \<Rightarrow> (ResolveError + Label) Outcome"
where
  "resolveGo c external imp pkgRel =
     (if IsLocalImport imp then
        (let cleanRel = Clean (Join [pkgRel, imp]) in
         if IsLocalImport cleanRel then Done (Inl (OutsideRepository imp pkgRel))
         else callExternal external (Join [GoPrefix c, cleanRel]))
      else callExternal external imp)"

text \<open>
  \<^verbatim>\<open>mapExprStrings\<close>. The function \<open>f\<close> gives the new string and what it logs. A
  result \<open>None\<close> is the nil expression.
\<close>

fun mapExprStrings ::
  "Expr \<Rightarrow> (string \<Rightarrow> string \<times> ResolveError list)
     \<Rightarrow> (Expr option \<times> ResolveError list) Outcome"
and mapExprList ::
  "Expr list \<Rightarrow> (string \<Rightarrow> string \<times> ResolveError list)
     \<Rightarrow> (Expr list \<times> ResolveError list) Outcome"
and mapExprDict ::
  "Expr list \<Rightarrow> (string \<Rightarrow> string \<times> ResolveError list)
     \<Rightarrow> (Expr list \<times> bool \<times> ResolveError list) Outcome"
where
  "mapExprStrings (StringExpr v) f =
     (case f v of (s, lg) \<Rightarrow> Done (if s = [] then None else Some (StringExpr s), lg))"
| "mapExprStrings (ListExpr elems) f =
     (case mapExprList elems f of
        Panicked msg \<Rightarrow> Panicked msg
      | Done (list, lg) \<Rightarrow>
          Done (if length list = 0 \<and> length elems > 0 then None else Some (ListExpr list), lg))"
| "mapExprStrings (DictExpr kvs) f =
     (case mapExprDict kvs f of
        Panicked msg \<Rightarrow> Panicked msg
      | Done (cases, isEmpty, lg) \<Rightarrow> Done (if isEmpty then None else Some (DictExpr cases), lg))"
| "mapExprStrings (CallExpr x args) f =
     (case args of
        [arg0] \<Rightarrow>
          (if x \<noteq> LiteralExpr ''select''
             then Panicked ''unexpected call expression in generated imports''
           else
             (case mapExprStrings arg0 f of
                Panicked msg \<Rightarrow> Panicked msg
              | Done (None, lg) \<Rightarrow> Done (None, lg)
              | Done (Some arg, lg) \<Rightarrow> Done (Some (CallExpr x [arg]), lg)))
      | _ \<Rightarrow> Panicked ''unexpected call expression in generated imports'')"
| "mapExprStrings (BinaryExpr x0 op y0) f =
     (case mapExprStrings x0 f of
        Panicked msg \<Rightarrow> Panicked msg
      | Done (x, lgx) \<Rightarrow>
          (case mapExprStrings y0 f of
             Panicked msg \<Rightarrow> Panicked msg
           | Done (y, lgy) \<Rightarrow>
               (case x of
                  None \<Rightarrow> Done (y, lgx @ lgy)
                | Some x' \<Rightarrow>
                    (case y of
                       None \<Rightarrow> Done (x, lgx @ lgy)
                     | Some y' \<Rightarrow> Done (Some (BinaryExpr x' op y'), lgx @ lgy)))))"
| "mapExprStrings (LiteralExpr tok) f = Panicked ''unexpected expression in generated imports''"
| "mapExprStrings (KeyValueExpr k v) f = Panicked ''unexpected expression in generated imports''"
| "mapExprStrings (DotExpr x name) f = Panicked ''unexpected expression in generated imports''"
| "mapExprStrings (CommentBlock ls) f = Panicked ''unexpected expression in generated imports''"
| "mapExprList [] f = Done ([], [])"
| "mapExprList (elem # elems) f =
     (case mapExprStrings elem f of
        Panicked msg \<Rightarrow> Panicked msg
      | Done (r, lg) \<Rightarrow>
          (case mapExprList elems f of
             Panicked msg \<Rightarrow> Panicked msg
           | Done (rs, lgs) \<Rightarrow>
               Done ((case r of None \<Rightarrow> rs | Some e \<Rightarrow> e # rs), lg @ lgs)))"
| "mapExprDict [] f = Done ([], True, [])"
| "mapExprDict (KeyValueExpr k v # kvs) f =
     (case mapExprStrings v f of
        Panicked msg \<Rightarrow> Panicked msg
      | Done (r, lg) \<Rightarrow>
          (case mapExprDict kvs f of
             Panicked msg \<Rightarrow> Panicked msg
           | Done (cases, isEmpty, lgs) \<Rightarrow>
               (case r of
                  None \<Rightarrow> Done (cases, isEmpty, lg @ lgs)
                | Some v' \<Rightarrow>
                    Done (KeyValueExpr k v' # cases,
                          isEmpty \<and> k = StringExpr ''//conditions:default'',
                          lg @ lgs))))"
| "mapExprDict (kv # kvs) f =
     Panicked ''unexpected expression in generated imports dict''"

text \<open>
  Modelled from the spec: \<^verbatim>\<open>Label.String\<close> (resolve/label.go is not under src/), the
  canonical string form \<^verbatim>\<open>//pkg:name\<close>, \<^verbatim>\<open>//pkg\<close> when the name equals the last path
  segment, \<^verbatim>\<open>@repo//pkg:name\<close>, and \<^verbatim>\<open>:name\<close> when relative.
\<close>

definition LabelString :: "Label \<Rightarrow> string" where
  "LabelString l =
     (if LRelative l then '':'' @ LName l
      else
        (let repo = (if LRepo l \<noteq> [] then ''@'' @ LRepo l else []) in
         if Base (LPkg l) = LName l then repo @ ''//'' @ LPkg l
         else repo @ ''//'' @ LPkg l @ '':'' @ LName l))"

text \<open>
  Modelled from the spec: the name of the placeholder "raw imports" attribute, which
  the doc comment of \<^verbatim>\<open>ResolveRule\<close> gives as \<^verbatim>\<open>_taze_imports\<close> (the constant
  \<^verbatim>\<open>config.TazeImportsKey\<close> is not under src/).
\<close>

definition TazeImportsKey :: string where
  "TazeImportsKey = ''_taze_imports''"

text \<open>
  The statements of \<^verbatim>\<open>ResolveRule\<close> that follow its \<^verbatim>\<open>switch\<close>, for a given
  \<^verbatim>\<open>resolve\<close>: the closure passed to \<^verbatim>\<open>mapExprStrings\<close>, then the rewriting of the
  attribute. \<open>DelAttr\<close> and the assignment to the attribute are the build file library's.
\<close>

definition importToDep ::
  "(string \<Rightarrow> string \<Rightarrow> ResolveError + Label) \<Rightarrow> string \<Rightarrow> string \<Rightarrow> string
     \<Rightarrow> string \<times> ResolveError list"
where
  "importToDep resolve pkgRel buildRel imp =
     (case resolve imp pkgRel of
        Inl (StandardImport i) \<Rightarrow> ([], [])
      | Inl err \<Rightarrow> ([], [err])
      | Inr label \<Rightarrow>
          (LabelString (label\<lparr>LRelative := (LRepo label = [] \<and> LPkg label = buildRel)\<rparr>), []))"

fun DelAttr :: "Expr list \<Rightarrow> string \<Rightarrow> Expr list" where
  "DelAttr [] key = []"
| "DelAttr (BinaryExpr (LiteralExpr k) op y # kvs) key =
     (if op = ''='' \<and> k = key then kvs else BinaryExpr (LiteralExpr k) op y # DelAttr kvs key)"
| "DelAttr (kv # kvs) key = kv # DelAttr kvs key"

fun SetAttrDefn :: "Expr list \<Rightarrow> string \<Rightarrow> Expr \<Rightarrow> Expr list" where
  "SetAttrDefn [] key new = []"
| "SetAttrDefn (BinaryExpr (LiteralExpr k) op y # kvs) key new =
     (if op = ''='' \<and> k = key then new # kvs
      else BinaryExpr (LiteralExpr k) op y # SetAttrDefn kvs key new)"
| "SetAttrDefn (kv # kvs) key new = kv # SetAttrDefn kvs key new"

definition rewriteImports ::
  "(string \<Rightarrow> string \<Rightarrow> ResolveError + Label) \<Rightarrow> Expr \<Rightarrow> Expr list \<Rightarrow> string \<Rightarrow> string
     \<Rightarrow> (Expr \<times> ResolveError list) Outcome"
where
  "rewriteImports resolve x args pkgRel buildRel =
     (case AttrDefn args TazeImportsKey of
        Some (BinaryExpr lhs op y) \<Rightarrow>
          (case mapExprStrings y (importToDep resolve pkgRel buildRel) of
             Panicked msg \<Rightarrow> Panicked msg
           | Done (None, lg) \<Rightarrow> Done (CallExpr x (DelAttr args TazeImportsKey), lg)
           | Done (Some deps, lg) \<Rightarrow>
               Done (CallExpr x
                       (SetAttrDefn args TazeImportsKey (BinaryExpr (LiteralExpr ''deps'') op deps)),
                     lg))
      | _ \<Rightarrow> Done (CallExpr x args, []))"

text \<open>
  \<^verbatim>\<open>ResolveRule\<close>, as it is: the \<^verbatim>\<open>switch\<close> on the rule's kind has the single case
  \<^verbatim>\<open>default: return\<close>, so the function returns before \<^verbatim>\<open>resolve\<close> is set and before
  the statements above run. The result is the rule after the call and what was logged.
\<close>

definition ResolveRule :: "Expr \<Rightarrow> string \<Rightarrow> string \<Rightarrow> (Expr \<times> ResolveError list) Outcome" where
  "ResolveRule e pkgRel buildRel =
     (if \<not> isCallExpr e then Done (e, [])
      else (case Kind e of kind \<Rightarrow> Done (e, [])))"


section \<open>The merger\<close>

text \<open>
  The package \<^verbatim>\<open>merger\<close> is not under src/: only its caller \<^verbatim>\<open>mergeAndEmit\<close> is,
  which first fixes the existing file (\<^verbatim>\<open>FixFile\<close>, when \<^verbatim>\<open>c.ShouldFix\<close> is set), then
  merges (\<^verbatim>\<open>MergeWithExisting\<close>, which gives nil for an ignored file), then sorts the
  labels (\<^verbatim>\<open>SortLabels\<close>). The definitions of this section follow the merge policy of
  the specification, on the structured file model that the specification names: rules
  with attributes, each of which may carry a pin marker.
\<close>

datatype AttrValue = Scalar string | Entries "string list"

record Attribute =
  attrKey :: string
  attrValue :: AttrValue
  attrPinned :: bool

record MRule =
  ruleKind :: string
  ruleName :: string
  ruleAttrs :: "Attribute list"
  rulePinned :: bool

record MFile =
  fileIgnored :: bool
  fileRules :: "MRule list"

text \<open>
  Modelled from the spec: policy (3) of the Merger, for one attribute value. Attribute
  lists are merged as a set union that keeps the existing entries and inserts the newly
  discovered ones; a scalar is overwritten by the generated value.
\<close>

fun mergeValue :: "AttrValue \<Rightarrow> AttrValue \<Rightarrow> AttrValue" where
  "mergeValue (Entries es) (Entries gs) = Entries (es @ filter (\<lambda>g. g \<notin> set es) (remdups gs))"
| "mergeValue old gen = gen"

text \<open>
  Modelled from the spec: policies (2) and (3) of the Merger, for one attribute of an
  existing rule. A pinned attribute is never altered; another one is merged with the
  generated attribute of the same key, if there is one.
\<close>

definition mergeAttr :: "Attribute list \<Rightarrow> Attribute \<Rightarrow> Attribute" where
  "mergeAttr gattrs a =
     (if attrPinned a then a
      else
        (case find (\<lambda>g. attrKey g = attrKey a) gattrs of
           None \<Rightarrow> a
         | Some g \<Rightarrow> a\<lparr>attrValue := mergeValue (attrValue a) (attrValue g)\<rparr>))"

text \<open>
  Modelled from the spec: policy (3) of the Merger, for the attributes of a rule. A
  generated attribute that the existing rule does not have is inserted after the
  existing ones.
\<close>

definition mergeAttrs :: "Attribute list \<Rightarrow> Attribute list \<Rightarrow> Attribute list" where
  "mergeAttrs gattrs oattrs =
     map (mergeAttr gattrs) oattrs
     @ filter (\<lambda>g. attrKey g \<notin> set (map attrKey oattrs)) gattrs"

text \<open>
  Modelled from the spec: policies (2) and (3) of the Merger, for one existing rule. A
  pinned rule is never altered; another one is merged with the generated rule of the
  same name, if there is one.
\<close>

definition mergeRule :: "MRule list \<Rightarrow> MRule \<Rightarrow> MRule" where
  "mergeRule gen r =
     (if rulePinned r then r
      else
        (case find (\<lambda>g. ruleName g = ruleName r) gen of
           None \<Rightarrow> r
         | Some g \<Rightarrow> r\<lparr>ruleAttrs := mergeAttrs (ruleAttrs g) (ruleAttrs r)\<rparr>))"

text \<open>
  Modelled from the spec: policies (2) and (4) of the Merger. A rule of the
  empty-candidate list is deleted unless it is pinned; since a pinned attribute is never
  removed either, a rule that holds one is kept as well.
\<close>

definition pinProtected :: "MRule \<Rightarrow> bool" where
  "pinProtected r = (rulePinned r \<or> list_ex attrPinned (ruleAttrs r))"

definition deleteEmpty :: "MRule list \<Rightarrow> MRule list \<Rightarrow> MRule list" where
  "deleteEmpty emptyRules rs =
     filter (\<lambda>r. pinProtected r \<or> ruleName r \<notin> set (map ruleName emptyRules)) rs"

text \<open>
  Modelled from the spec: policy (6) of the Merger. The generated rules with no
  existing counterpart, which are appended.
\<close>

definition newRules :: "MRule list \<Rightarrow> MRule list \<Rightarrow> MRule list" where
  "newRules gen rs = filter (\<lambda>g. ruleName g \<notin> set (map ruleName rs)) gen"

text \<open>
  Modelled from the spec: the normalisation after the merge. The entries of the
  dependency-list attribute (\<^verbatim>\<open>deps\<close>) are put in lexicographic order; what is pinned
  is not altered.
\<close>

definition sortAttr :: "Attribute \<Rightarrow> Attribute" where
  "sortAttr a =
     (if attrPinned a \<or> attrKey a \<noteq> ''deps'' then a
      else
        (case attrValue a of
           Entries es \<Rightarrow> a\<lparr>attrValue := Entries (sort es)\<rparr>
         | Scalar v \<Rightarrow> a))"

definition sortRule :: "MRule \<Rightarrow> MRule" where
  "sortRule r = (if rulePinned r then r else r\<lparr>ruleAttrs := map sortAttr (ruleAttrs r)\<rparr>)"

text \<open>
  Modelled from the spec: policies (2), (3), (4) and (6) of the Merger and the
  normalisation, on the rules of the existing file.
\<close>

definition mergeRules :: "MRule list \<Rightarrow> MRule list \<Rightarrow> MRule list \<Rightarrow> MRule list" where
  "mergeRules gen rs emptyRules =
     map sortRule (deleteEmpty emptyRules (map (mergeRule gen) rs) @ newRules gen rs)"

text \<open>
  Modelled from the spec: the contract \<^verbatim>\<open>merge(generatedRules, existingFile,
  emptyCandidates)\<close> of the Merger. (1) An existing file that carries the ignore
  directive is not merged: the result \<open>None\<close> is the "unchanged/ignored" outcome. (5) In
  fix mode the deprecated rule shapes are rewritten first, on the existing file, as
  \<^verbatim>\<open>mergeAndEmit\<close> does; the specification does not list the shapes, so the rewrite is
  the parameter \<open>fix\<close>.
\<close>

definition fixedRules :: "bool \<Rightarrow> (MRule list \<Rightarrow> MRule list) \<Rightarrow> MFile \<Rightarrow> MRule list" where
  "fixedRules fixMode fix old = (if fixMode then fix (fileRules old) else fileRules old)"

definition merge ::
  "bool \<Rightarrow> (MRule list \<Rightarrow> MRule list) \<Rightarrow> MRule list \<Rightarrow> MFile \<Rightarrow> MRule list \<Rightarrow> MFile option"
where
  "merge fixMode fix gen old emptyRules =
     (if fileIgnored old then None
      else Some (old\<lparr>fileRules := mergeRules gen (fixedRules fixMode fix old) emptyRules\<rparr>))"


section \<open>A concrete environment\<close>

text \<open>
  Stand-ins for the parameters of the walk, small enough to run the walk on example
  trees. The targets of a package are the names of its files. A build file is its lines,
  separated by \<^verbatim>\<open>;\<close>, each a top-level comment; the one line \<^verbatim>\<open>????\<close> does not parse.
\<close>

definition exRel :: "string \<Rightarrow> string \<Rightarrow> string option" where
  "exRel base targ =
     (if targ = base then Some ''.''
      else if HasPrefix targ (base @ ''/'') then Some (drop (length base + 1) targ)
      else None)"

fun splitSemi :: "string \<Rightarrow> string list" where
  "splitSemi [] = [[]]"
| "splitSemi (ch # s) =
     (if ch = CHR '';'' then [] # splitSemi s
      else (case splitSemi s of
              [] \<Rightarrow> [[ch]]
            | w # ws \<Rightarrow> (ch # w) # ws))"

definition exParse :: "string \<Rightarrow> string \<Rightarrow> bfFile option" where
  "exParse path data =
     (if data = ''????'' then None
      else Some \<lparr>Path = path, Stmt = (if data = [] then [] else [CommentBlock (splitSemi data)])\<rparr>)"

text \<open>
  Modelled from the spec: \<^verbatim>\<open>ParseDirectives\<close> (config/directives.go is not under src/).
  A directive is a top-level comment \<^verbatim>\<open># <keyword>:<key> <value>\<close>; the keyword is the
  tool's name.
\<close>

definition directiveOfLine :: "string \<Rightarrow> Directive list" where
  "directiveOfLine line =
     (if HasPrefix line ''# taze:'' then
        (let body = drop (length ''# taze:'') line;
             k = takeWhile (\<lambda>ch. ch \<noteq> CHR '' '') body;
             v = drop (length k + 1) body
         in [\<lparr>Key = k, Value = v\<rparr>])
      else [])"

fun commentLines :: "Expr \<Rightarrow> string list" where
  "commentLines (CommentBlock ls) = ls"
| "commentLines e = []"

definition exParseDirectives :: "bfFile \<Rightarrow> Directive list" where
  "exParseDirectives f = concat (map directiveOfLine (concat (map commentLines (Stmt f))))"

text \<open>
  Modelled from the spec: \<^verbatim>\<open>ApplyDirectives\<close> (config/directives.go is not under src/).
  The directives are folded into a new Configuration value; the proto-mode override is
  the directive that changes it.
\<close>

definition applyDirective :: "Directive \<Rightarrow> Config \<Rightarrow> Config" where
  "applyDirective d c =
     (if Key d = ''proto'' then
        (case ProtoModeFromString (Value d) of
           Inl err \<Rightarrow> c
         | Inr m \<Rightarrow> c\<lparr>ProtoMode := m\<rparr>)
      else c)"

definition exApplyDirectives :: "Config \<Rightarrow> Directive list \<Rightarrow> Config" where
  "exApplyDirectives c directives = fold applyDirective directives c"

definition exFileInfo :: "string \<Rightarrow> fileInfo" where
  "exFileInfo f =
     \<lparr>fileName = f, packageName = takeWhile (\<lambda>ch. ch \<noteq> CHR ''.'') f, isCgo = False\<rparr>"

definition exOtherInfo :: "string \<Rightarrow> fileInfo" where
  "exOtherInfo f = \<lparr>fileName = f, packageName = [], isCgo = False\<rparr>"

definition exEnv :: "(string list) Env" where
  "exEnv =
     \<lparr>Parse = exParse,
      filepathRel = exRel,
      ParseDirectives = exParseDirectives,
      ApplyDirectives = exApplyDirectives,
      InferProtoMode = (\<lambda>c f directives. c),
      goFileInfo = (\<lambda>c dir rel f. exFileInfo f),
      protoFileInfo = (\<lambda>c dir rel f. exFileInfo f),
      otherFileInfo = (\<lambda>dir rel f. exOtherInfo f),
      fileNameInfo = (\<lambda>dir rel f. exOtherInfo f),
      addFile = (\<lambda>c t info cgoFlag. (None, t @ [fileName info])),
      isBuildable = (\<lambda>c p. list_ex (\<lambda>f. HasSuffix f ''.go'') (targets p)),
      firstGoFile = (\<lambda>p. case filter (\<lambda>f. HasSuffix f ''.go'') (targets p) of
                             [] \<Rightarrow> [] | f # fs \<Rightarrow> f),
      emptyTargets = []\<rparr>"

definition exConfig :: Config where
  "exConfig =
     \<lparr>Dirs = [''/repo''], RepoRoot = ''/repo'',
      ValidBuildFileNames = [''BUILD.bazel'', ''BUILD''],
      GenericTags = [], ExperimentalPlatforms = False, GoPrefix = [],
      ShouldFix = False, DepMode = ExternalMode, KnownImports = [],
      StructureMode = HierarchicalMode, ProtoMode = DefaultProtoMode\<rparr>"

definition exFiles :: "FileInfo list" where
  "exFiles = [(''.git'', True), (''_tmp.go'', False), (''a.pb.go'', False), (''a.proto'', False),
              (''b.go'', False), (''notes.txt'', False), (''sub'', True), (''vendor'', True),
              (''x.go'', False)]"

definition exDirectives :: "Directive list" where
  "exDirectives = [\<lparr>Key = ''exclude'', Value = ''x.go''\<rparr>]"


section \<open>Properties of the classification\<close>

lemma proto_not_pbgo: "HasSuffix n ''.proto'' \<Longrightarrow> n \<noteq> s @ ''.pb.go''"
  by (auto simp: HasSuffix_def)

lemma HasSuffix_append: "HasSuffix (s @ suf) suf"
  by (simp add: HasSuffix_def)

lemma HasSuffix_stem: "HasSuffix n suf \<Longrightarrow> take (length n - length suf) n @ suf = n"
  by (metis HasSuffix_def append_take_drop_id)

lemma excludePbGoFiles_set:
  "set (excludePbGoFiles files ex) =
     set ex \<union> {stem @ ''.pb.go'' | stem. stem @ ''.proto'' \<in> fst ` set files \<and> stem @ ''.proto'' \<notin> set ex}"
proof (induction files arbitrary: ex)
  case Nil
  then show ?case by simp
next
  case (Cons f files)
  obtain name isDir where f: "f = (name, isDir)" by (cases f)
  show ?case
  proof (cases "name \<in> set ex")
    case True
    then show ?thesis using Cons.IH [of ex] f by auto
  next
    case False
    show ?thesis
    proof (cases "HasSuffix name ''.proto''")
      case True
      define stem0 where "stem0 = take (length name - length ''.proto'') name"
      have nm: "name = stem0 @ ''.proto''"
        using HasSuffix_stem [OF True] by (simp add: stem0_def)
      have step: "excludePbGoFiles (f # files) ex = excludePbGoFiles files (ex @ [stem0 @ ''.pb.go''])"
        using False True f by (simp add: stem0_def)
      have mem: "\<And>stem. stem @ ''.proto'' \<notin> set (ex @ [stem0 @ ''.pb.go'']) \<longleftrightarrow> stem @ ''.proto'' \<notin> set ex"
        using proto_not_pbgo [OF HasSuffix_append] by auto
      show ?thesis
        unfolding step Cons.IH mem using False f nm by auto
    next
      case nosuf: False
      have "\<And>stem. name \<noteq> stem @ ''.proto''"
        using nosuf HasSuffix_append by metis
      then show ?thesis using Cons.IH [of ex] f False nosuf by auto
    qed
  qed
qed

lemma excludedOf_subset_visitExcluded:
  "set (excludedOf directives) \<subseteq> set (visitExcluded c directives files)"
  by (auto simp: visitExcluded_def excludePbGoFiles_set)

lemma classifyEntry_excluded:
  "base \<in> set excluded \<Longrightarrow> classifyEntry c excluded (base, isDir) = Skipped"
  by (simp add: classifyEntry_def)

lemma classifyEntry_hidden:
  "base = [] \<or> hd base = CHR ''.'' \<or> hd base = CHR ''_''
     \<Longrightarrow> classifyEntry c excluded (base, isDir) = Skipped"
  by (cases base) (auto simp: classifyEntry_def)

lemma classifyEntry_vendor:
  "DepMode c = ExternalMode \<Longrightarrow> classifyEntry c excluded (''vendor'', True) = Skipped"
  by (simp add: classifyEntry_def)

lemma namesOfClass_mem:
  "base \<in> set (namesOfClass c excluded k files)
     \<longleftrightarrow> (\<exists>isDir. (base, isDir) \<in> set files \<and> classifyEntry c excluded (base, isDir) = k)"
  by (force simp: namesOfClass_def)

lemma subdir_is_dir: "classifyEntry c excluded (base, isDir) = Subdir \<Longrightarrow> isDir"
  by (auto simp: classifyEntry_def Let_def split: if_splits)


lemma skipped_name_classify:
  assumes "base = [] \<or> hd base = CHR ''.'' \<or> hd base = CHR ''_''
           \<or> (\<exists>d\<in>set directives. Key d = ''exclude'' \<and> Value d = base)"
  shows "classifyEntry c (visitExcluded c directives files) (base, isDir) = Skipped"
proof (cases "base = [] \<or> hd base = CHR ''.'' \<or> hd base = CHR ''_''")
  case True
  then show ?thesis by (rule classifyEntry_hidden)
next
  case False
  with assms have "\<exists>d\<in>set directives. Key d = ''exclude'' \<and> Value d = base"
    by blast
  then have "base \<in> set (excludedOf directives)"
    by (auto simp: excludedOf_def)
  then have "base \<in> set (visitExcluded c directives files)"
    using excludedOf_subset_visitExcluded by blast
  then show ?thesis by (rule classifyEntry_excluded)
qed

text \<open>
  Claim C10. During classification the Walker skips every entry whose name is empty or
  begins with \<^verbatim>\<open>.\<close> or \<^verbatim>\<open>_\<close>, every entry named by an exclude directive, and a
  directory named \<^verbatim>\<open>vendor\<close> when the dependency mode is external: such an entry
  is classified as skipped, its name is in none of the lists \<^verbatim>\<open>pkgFiles\<close>,
  \<^verbatim>\<open>otherFiles\<close> and \<^verbatim>\<open>subdirs\<close>, and the loop over the subdirectories passes
  over it without a visit.
\<close>

theorem C10_skipped_entries_never_classified:
  fixes env :: "'t Env"
  assumes ex: "excluded = visitExcluded c directives files"
  shows "((base = [] \<or> hd base = CHR ''.'' \<or> hd base = CHR ''_''
           \<or> (\<exists>d\<in>set directives. Key d = ''exclude'' \<and> Value d = base)) \<longrightarrow>
            classifyEntry c excluded (base, isDir) = Skipped
          \<and> base \<notin> set (namesOfClass c excluded PkgFile files)
          \<and> base \<notin> set (namesOfClass c excluded OtherFile files)
          \<and> base \<notin> set (namesOfClass c excluded Subdir files)
          \<and> visitSubdirs env updateRels c excluded dir rel isUpdateDir ((base, node) # es) acc
              = visitSubdirs env updateRels c excluded dir rel isUpdateDir es acc)
       \<and> (DepMode c = ExternalMode \<longrightarrow>
            classifyEntry c excluded (''vendor'', True) = Skipped
          \<and> ''vendor'' \<notin> set (namesOfClass c excluded Subdir files)
          \<and> visitSubdirs env updateRels c excluded dir rel isUpdateDir
                ((''vendor'', Directory readable sub) # es) acc
              = visitSubdirs env updateRels c excluded dir rel isUpdateDir es acc)"
proof (intro conjI impI)
  assume sk: "base = [] \<or> hd base = CHR ''.'' \<or> hd base = CHR ''_''
           \<or> (\<exists>d\<in>set directives. Key d = ''exclude'' \<and> Value d = base)"
  have all: "\<And>d. classifyEntry c excluded (base, d) = Skipped"
    unfolding ex using sk by (rule skipped_name_classify)
  show "classifyEntry c excluded (base, isDir) = Skipped" by (rule all)
  show "base \<notin> set (namesOfClass c excluded PkgFile files)"
    by (simp add: namesOfClass_mem all)
  show "base \<notin> set (namesOfClass c excluded OtherFile files)"
    by (simp add: namesOfClass_mem all)
  show "base \<notin> set (namesOfClass c excluded Subdir files)"
    by (simp add: namesOfClass_mem all)
  show "visitSubdirs env updateRels c excluded dir rel isUpdateDir ((base, node) # es) acc
          = visitSubdirs env updateRels c excluded dir rel isUpdateDir es acc"
    by (cases acc) (simp add: all)
next
  assume ext: "DepMode c = ExternalMode"
  have v: "classifyEntry c excluded (''vendor'', True) = Skipped"
    using ext by (rule classifyEntry_vendor)
  show "classifyEntry c excluded (''vendor'', True) = Skipped" by (rule v)
  show "''vendor'' \<notin> set (namesOfClass c excluded Subdir files)"
  proof
    assume "''vendor'' \<in> set (namesOfClass c excluded Subdir files)"
    then obtain d where d: "classifyEntry c excluded (''vendor'', d) = Subdir"
      by (auto simp: namesOfClass_mem)
    then have "d" by (rule subdir_is_dir)
    with d v show False by simp
  qed
  show "visitSubdirs env updateRels c excluded dir rel isUpdateDir
          ((''vendor'', Directory readable sub) # es) acc
        = visitSubdirs env updateRels c excluded dir rel isUpdateDir es acc"
    by (cases acc) (simp add: v)
qed

lemma exVisitExcluded: "visitExcluded exConfig exDirectives exFiles = [''x.go'', ''a.pb.go'']"
  by (simp add: visitExcluded_def exConfig_def exDirectives_def exFiles_def excludedOf_def
        HasSuffix_def)

theorem C10_skipped_entries_witness:
  "classifyEntry exConfig (visitExcluded exConfig exDirectives exFiles) (''x.go'', False) = Skipped
   \<and> ''x.go'' \<notin> set (namesOfClass exConfig (visitExcluded exConfig exDirectives exFiles) PkgFile exFiles)
   \<and> ''vendor'' \<notin> set (namesOfClass exConfig (visitExcluded exConfig exDirectives exFiles) Subdir exFiles)
   \<and> namesOfClass exConfig (visitExcluded exConfig exDirectives exFiles) PkgFile exFiles
       = [''a.proto'', ''b.go'']
   \<and> namesOfClass exConfig (visitExcluded exConfig exDirectives exFiles) OtherFile exFiles
       = [''notes.txt'']
   \<and> namesOfClass exConfig (visitExcluded exConfig exDirectives exFiles) Subdir exFiles = [''sub'']"
proof -
  have h1: "''x.go'' = [] \<or> hd ''x.go'' = CHR ''.'' \<or> hd ''x.go'' = CHR ''_''
            \<or> (\<exists>d\<in>set exDirectives. Key d = ''exclude'' \<and> Value d = ''x.go'')"
    by (simp add: exDirectives_def)
  have h2: "DepMode exConfig = ExternalMode" by (simp add: exConfig_def)
  note t = C10_skipped_entries_never_classified
             [OF refl, of "''x.go''" exDirectives exConfig exFiles False
                exEnv "[]" "''/repo''" "[]" True "RegFile None" "[]" "(False, False, \<lparr>cfg = exConfig, logs = [], calls = []\<rparr>)" True "[]"]
  have rest: "namesOfClass exConfig (visitExcluded exConfig exDirectives exFiles) PkgFile exFiles
       = [''a.proto'', ''b.go'']
   \<and> namesOfClass exConfig (visitExcluded exConfig exDirectives exFiles) OtherFile exFiles
       = [''notes.txt'']
   \<and> namesOfClass exConfig (visitExcluded exConfig exDirectives exFiles) Subdir exFiles = [''sub'']"
    unfolding exVisitExcluded
    by (simp add: namesOfClass_def classifyEntry_def exFiles_def exConfig_def HasSuffix_def)
  from t h1 h2 rest show ?thesis by blast
qed

text \<open>
  Claim C8. In default proto mode the companion \<^verbatim>\<open>.pb.go\<close> name of a \<^verbatim>\<open>.proto\<close>
  entry is in the table of excluded names exactly when a directive excludes it or the
  \<^verbatim>\<open>.proto\<close> entry is present and not itself excluded by a directive; so the
  companion of a schema file that is not excluded is skipped by the classification,
  and the companion of an excluded schema file is not excluded on that account.
\<close>

theorem C8_companion_pb_go_excluded:
  assumes dm: "ProtoMode c = DefaultProtoMode"
  shows "(stem @ ''.pb.go'' \<in> set (visitExcluded c directives files)
            \<longleftrightarrow> stem @ ''.pb.go'' \<in> set (excludedOf directives)
                \<or> (stem @ ''.proto'' \<in> fst ` set files
                    \<and> stem @ ''.proto'' \<notin> set (excludedOf directives)))
       \<and> (stem @ ''.proto'' \<in> fst ` set files \<and> stem @ ''.proto'' \<notin> set (excludedOf directives)
            \<longrightarrow> classifyEntry c (visitExcluded c directives files) (stem @ ''.pb.go'', isDir) = Skipped
              \<and> stem @ ''.pb.go'' \<notin> set (namesOfClass c (visitExcluded c directives files) PkgFile files)
              \<and> stem @ ''.pb.go'' \<notin> set (namesOfClass c (visitExcluded c directives files) OtherFile files)
              \<and> stem @ ''.pb.go'' \<notin> set (namesOfClass c (visitExcluded c directives files) Subdir files))"
proof -
  have iff: "stem @ ''.pb.go'' \<in> set (visitExcluded c directives files)
            \<longleftrightarrow> stem @ ''.pb.go'' \<in> set (excludedOf directives)
                \<or> (stem @ ''.proto'' \<in> fst ` set files
                    \<and> stem @ ''.proto'' \<notin> set (excludedOf directives))"
    using dm by (auto simp: visitExcluded_def excludePbGoFiles_set)
  have cls: "\<And>d. stem @ ''.pb.go'' \<in> set (visitExcluded c directives files)
              \<Longrightarrow> classifyEntry c (visitExcluded c directives files) (stem @ ''.pb.go'', d) = Skipped"
    by (rule classifyEntry_excluded)
  show ?thesis
    using iff cls by (auto simp: namesOfClass_mem)
qed

theorem C8_companion_pb_go_witness:
  "ProtoMode exConfig = DefaultProtoMode
   \<and> ''a.pb.go'' \<in> set (visitExcluded exConfig exDirectives exFiles)
   \<and> classifyEntry exConfig (visitExcluded exConfig exDirectives exFiles) (''a.pb.go'', False) = Skipped
   \<and> ''a.pb.go'' \<notin> set (namesOfClass exConfig (visitExcluded exConfig exDirectives exFiles) PkgFile exFiles)
   \<and> ''a.pb.go'' \<notin> set (visitExcluded exConfig [\<lparr>Key = ''exclude'', Value = ''a.proto''\<rparr>] exFiles)
   \<and> ''a.pb.go'' \<in> set (namesOfClass exConfig
          (visitExcluded exConfig [\<lparr>Key = ''exclude'', Value = ''a.proto''\<rparr>] exFiles) PkgFile exFiles)"
proof -
  have dm: "ProtoMode exConfig = DefaultProtoMode" by (simp add: exConfig_def)
  have p1: "''a'' @ ''.proto'' \<in> fst ` set exFiles \<and> ''a'' @ ''.proto'' \<notin> set (excludedOf exDirectives)"
    by (simp add: exFiles_def exDirectives_def excludedOf_def)
  have p2: "''a'' @ ''.pb.go'' \<notin> set (excludedOf [\<lparr>Key = ''exclude'', Value = ''a.proto''\<rparr>])
            \<and> ''a'' @ ''.proto'' \<in> set (excludedOf [\<lparr>Key = ''exclude'', Value = ''a.proto''\<rparr>])"
    by (simp add: excludedOf_def)
  note t1 = C8_companion_pb_go_excluded [OF dm, of "''a''" exDirectives exFiles False]
  note t2 = C8_companion_pb_go_excluded
              [OF dm, of "''a''" "[\<lparr>Key = ''exclude'', Value = ''a.proto''\<rparr>]" exFiles False]
  have e2: "visitExcluded exConfig [\<lparr>Key = ''exclude'', Value = ''a.proto''\<rparr>] exFiles = [''a.proto'']"
    by (simp add: visitExcluded_def exConfig_def exFiles_def excludedOf_def HasSuffix_def)
  have last: "''a.pb.go'' \<in> set (namesOfClass exConfig
          (visitExcluded exConfig [\<lparr>Key = ''exclude'', Value = ''a.proto''\<rparr>] exFiles) PkgFile exFiles)"
    unfolding e2
    by (simp add: namesOfClass_def classifyEntry_def exFiles_def exConfig_def HasSuffix_def)
  from t1 t2 p1 p2 dm last show ?thesis by simp
qed

end
